theory Spec2Isabelle
  imports Main "HOL-Library.AList" "HOL-Library.Char_ord" "HOL-Library.List_Lexorder"
begin

section \<open>Python strings and exceptions\<close>

text \<open>
  A Python \<open>str\<close> is modelled as a \<open>string\<close>, one \<open>char\<close> per character. The
  character tests below are those of \<open>str.isalnum\<close> and \<open>str.isspace\<close> on ASCII;
  the CJK part of the four fixed reply texts is written as its UTF-8 bytes, so the length
  of those four constants is not Python's \<open>len\<close> (nothing below depends on it).
\<close>

definition isalnum :: "char \<Rightarrow> bool" where
  "isalnum c = ((CHR ''0'' \<le> c \<and> c \<le> CHR ''9'') \<or> (CHR ''A'' \<le> c \<and> c \<le> CHR ''Z'')
     \<or> (CHR ''a'' \<le> c \<and> c \<le> CHR ''z''))"

definition isspace :: "char \<Rightarrow> bool" where
  "isspace c = (c \<in> set [CHR 0x09, CHR 0x0A, CHR 0x0B, CHR 0x0C, CHR 0x0D,
                          CHR 0x1C, CHR 0x1D, CHR 0x1E, CHR 0x1F, CHR 0x20])"

definition rstrip :: "string \<Rightarrow> string" where
  "rstrip s = rev (dropWhile isspace (rev s))"

definition startswith :: "string \<Rightarrow> string \<Rightarrow> bool" where
  "startswith s p = (take (length p) s = p)"

definition endswith :: "string \<Rightarrow> string \<Rightarrow> bool" where
  "endswith s p = (length p \<le> length s \<and> drop (length s - length p) s = p)"

definition lower_char :: "char \<Rightarrow> char" where
  "lower_char c = (if CHR ''A'' \<le> c \<and> c \<le> CHR ''Z'' then char_of (of_char c + (32::nat)) else c)"

definition lower :: "string \<Rightarrow> string" where
  "lower s = map lower_char s"

text \<open>\<open>str(n)\<close> for a natural number, as the f-string \<open>f"Topic {n}"\<close> prints it.\<close>

fun str_nat :: "nat \<Rightarrow> string" where
  "str_nat n = (if n < 10 then [char_of (48 + n)]
                else str_nat (n div 10) @ [char_of (48 + n mod 10)])"

declare str_nat.simps [simp del]

text \<open>An exception value: the name of its class and its message (\<open>str(e)\<close>).\<close>

datatype exn = Exn (exn_class: string) (exn_msg: string)

section \<open>models.py\<close>

record message =
  role :: string
  content :: string

record topic =
  topic_id :: string
  topic_name :: string
  messages :: "message list"

record topic_info =
  info_id :: string
  info_name :: string
  preview :: string

section \<open>storage.py\<close>

text \<open>
  The chat history directory maps file names to file contents, in the order
  \<open>os.listdir\<close> reports them. A file holds either the JSON of a topic (what
  \<open>json.dump(topic.model_dump())\<close> wrote and \<open>Topic(**json.load(f))\<close> reads back) or
  something that cannot be read or decoded into a topic.
\<close>

datatype file_content = Json topic | Garbage

type_synonym directory = "(string \<times> file_content) list"

definition exists :: "directory \<Rightarrow> string \<Rightarrow> bool" where
  "exists dir p = (map_of dir p \<noteq> None)"

text \<open>What the operating system does with a write (\<open>open(filepath, 'w')\<close> and the dump)
  and with \<open>os.remove\<close>.\<close>

datatype write_outcome = WriteOk | OpenFails | WriteFails

datatype remove_outcome = Removed | StillThere | RemoveRaises exn

definition safe_topic_id :: "string \<Rightarrow> string" where
  "safe_topic_id tid = rstrip (filter (\<lambda>c. isalnum c \<or> c \<in> set [CHR ''-'', CHR ''_'']) tid)"

definition get_topic_path :: "string \<Rightarrow> exn + string" where
  "get_topic_path tid =
     (let safe = safe_topic_id tid in
      if safe = [] then Inl (Exn ''ValueError'' ''Invalid topic ID provided'')
      else Inr (safe @ ''.json''))"

definition save_topic :: "write_outcome \<Rightarrow> topic \<Rightarrow> directory \<Rightarrow> directory" where
  "save_topic io t dir =
     (case get_topic_path (topic_id t) of
        Inl ve \<Rightarrow> dir
      | Inr filepath \<Rightarrow>
          (case io of
             WriteOk \<Rightarrow> AList.update filepath (Json t) dir
           | OpenFails \<Rightarrow> dir
           | WriteFails \<Rightarrow> AList.update filepath Garbage dir))"

definition load_topic :: "directory \<Rightarrow> string \<Rightarrow> topic option" where
  "load_topic dir tid =
     (case get_topic_path tid of
        Inl ve \<Rightarrow> None
      | Inr filepath \<Rightarrow>
          (case map_of dir filepath of
             None \<Rightarrow> None
           | Some Garbage \<Rightarrow> None
           | Some (Json t) \<Rightarrow> Some t))"

definition truncate50 :: "string \<Rightarrow> string" where
  "truncate50 s = take 50 s @ (if length s > 50 then ''...'' else '''')"

text \<open>\<open>next((m.content for m in msgs if m.role == r), None)\<close>\<close>

fun first_content :: "string \<Rightarrow> message list \<Rightarrow> string option" where
  "first_content r [] = None"
| "first_content r (m # ms) = (if role m = r then Some (content m) else first_content r ms)"

definition truthy :: "string option \<Rightarrow> bool" where
  "truthy v = (case v of None \<Rightarrow> False | Some s \<Rightarrow> s \<noteq> [])"

text \<open>The preview that the loop body of \<open>list_topics\<close> computes for a loaded topic.\<close>

definition preview_of :: "topic \<Rightarrow> string" where
  "preview_of t =
     (let first_user_msg = first_content ''user'' (messages t) in
      if truthy first_user_msg then truncate50 (the first_user_msg)
      else if messages t \<noteq> [] then
        (let first_assistant_msg = first_content ''assistant'' (messages t) in
         if truthy first_assistant_msg then truncate50 (the first_assistant_msg)
         else if content (hd (messages t)) \<noteq> [] then take 50 (content (hd (messages t))) @ ''...''
         else ''New Topic'')
      else ''New Topic'')"

definition list_topics :: "directory \<Rightarrow> topic_info list" where
  "list_topics dir =
     sort_key (\<lambda>i. lower (info_name i))
       (concat (map (\<lambda>filename.
          if endswith filename ''.json'' \<and> \<not> endswith filename ''.corrupted'' then
            (case load_topic dir (take (length filename - 5) filename) of
               None \<Rightarrow> []
             | Some t \<Rightarrow> [\<lparr>info_id = topic_id t, info_name = topic_name t, preview = preview_of t\<rparr>])
          else []) (map fst dir)))"

text \<open>\<open>uuid\<close> is the value of \<open>str(uuid.uuid4())\<close> drawn for this call.\<close>

definition create_new_topic ::
  "string \<Rightarrow> string option \<Rightarrow> write_outcome \<Rightarrow> directory \<Rightarrow> topic \<times> directory" where
  "create_new_topic uuid name io dir =
     (let name' = (if truthy name then the name
                   else ''Topic '' @ str_nat (length (list_topics dir) + 1));
          t = \<lparr>topic_id = uuid, topic_name = name', messages = []\<rparr>
      in (t, save_topic io t dir))"

definition add_message_to_topic ::
  "write_outcome \<Rightarrow> string \<Rightarrow> message \<Rightarrow> directory \<Rightarrow> topic option \<times> directory" where
  "add_message_to_topic io tid msg dir =
     (case load_topic dir tid of
        Some t \<Rightarrow>
          (let t' = t\<lparr>messages := messages t @ [msg]\<rparr> in (Some t', save_topic io t' dir))
      | None \<Rightarrow> (None, dir))"

definition delete_topic_file :: "remove_outcome \<Rightarrow> string \<Rightarrow> directory \<Rightarrow> bool \<times> directory" where
  "delete_topic_file rm tid dir =
     (case get_topic_path tid of
        Inl ve \<Rightarrow> (False, dir)
      | Inr filepath \<Rightarrow>
          if \<not> exists dir filepath then (True, dir)
          else (case rm of
                  Removed \<Rightarrow>
                    (let dir' = AList.delete filepath dir in
                     if \<not> exists dir' filepath then (True, dir') else (False, dir'))
                | StillThere \<Rightarrow> (if \<not> exists dir filepath then (True, dir) else (False, dir))
                | RemoveRaises e \<Rightarrow> (False, dir)))"

text \<open>
  A directory is coherent when every file that holds a topic is named after that topic,
  as the files written by \<open>save_topic\<close> are.
\<close>

definition coherent :: "directory \<Rightarrow> bool" where
  "coherent dir = (\<forall>p t. map_of dir p = Some (Json t) \<longrightarrow> get_topic_path (topic_id t) = Inr p)"

text \<open>
  The shape of \<open>str(uuid.uuid4())\<close>: 36 characters, \<open>-\<close> at positions 8, 13, 18 and 23,
  lower-case hexadecimal digits elsewhere.
\<close>

definition hexdigit :: "char \<Rightarrow> bool" where
  "hexdigit c = ((CHR ''0'' \<le> c \<and> c \<le> CHR ''9'') \<or> (CHR ''a'' \<le> c \<and> c \<le> CHR ''f''))"

definition uuid_shaped :: "string \<Rightarrow> bool" where
  "uuid_shaped u = (length u = 36 \<and>
     list_all (\<lambda>(i, c). if i \<in> set [8, 13, 18, 23::nat] then c = CHR ''-'' else hexdigit c)
       (enumerate 0 u))"

section \<open>graphrag_processor.py\<close>

text \<open>
  The WARNING and ERROR records that \<open>_resolve_api_key\<close> and \<open>initialize_rag\<close> write
  to the log, one constructor for each logging call with the values its message
  interpolates. INFO and DEBUG records are left out.
\<close>

datatype log_record =
    KeyVariableNotFound string
  | KeyFoundDirectly string
  | ModulesNotAvailable
  | MissingOutputFiles "string list"
  | CollectionNotFound "string list"
  | VectorStoreCheckFailed exn
  | ChatKeyUnresolved
  | MissingChatConfig
  | EmbeddingKeyUnresolved
  | MissingEmbeddingConfig
  | InitializationFailed exn

datatype level = WARNING | ERROR

fun levelname :: "log_record \<Rightarrow> level" where
  "levelname (KeyFoundDirectly k) = WARNING"
| "levelname ChatKeyUnresolved = WARNING"
| "levelname EmbeddingKeyUnresolved = WARNING"
| "levelname r = ERROR"

text \<open>\<open>str(key_value)\<close> for an optional string.\<close>

definition str_opt :: "string option \<Rightarrow> string" where
  "str_opt v = (case v of None \<Rightarrow> ''None'' | Some s \<Rightarrow> s)"

text \<open>\<open>getenv\<close> is the process environment that \<open>os.getenv\<close> reads.\<close>

definition resolve_api_key ::
  "(string \<Rightarrow> string option) \<Rightarrow> string option \<Rightarrow> string option \<times> log_record list" where
  "resolve_api_key getenv key_value =
     (if truthy key_value \<and> startswith (the key_value) ''${'' \<and> endswith (the key_value) ''}'' then
        (let var_name = butlast (drop 2 (the key_value));
             resolved_key = getenv var_name
         in (resolved_key, if \<not> truthy resolved_key then [KeyVariableNotFound var_name] else []))
      else
        (let direct_env_key = getenv (str_opt key_value) in
         if truthy direct_env_key then (direct_env_key, [KeyFoundDirectly (str_opt key_value)])
         else (key_value, [])))"

text \<open>
  The module state: \<open>_model_manager\<close> (set or not), \<open>_search_engine\<close> (an opaque
  handle of type \<open>'h\<close>, or \<open>None\<close>) and \<open>_initialized\<close>.
\<close>

record 'h rag_state =
  model_manager :: bool
  search_engine :: "'h option"
  initialized :: bool

text \<open>
  What \<open>initialize_rag\<close> reads from its surroundings: the settings, the environment, and
  what each call into pandas, lancedb, graphrag and tiktoken does (\<open>None\<close> where a group
  of calls raises nothing, otherwise the exception raised). The two model constructors
  are given the resolved API key they are called with.
\<close>

record 'h init_env =
  GRAPHRAG_AVAILABLE :: bool
  output_files :: "string list"
  load_data :: "exn option"
  table_names :: "exn + string list"
  getenv :: "string \<Rightarrow> string option"
  llm_api_key :: "string option"
  LLM_MODEL :: "string option"
  LLM_API_BASE :: "string option"
  create_chat_model :: "string option \<Rightarrow> exn option"
  embedding_api_key :: "string option"
  EMBEDDING_MODEL :: "string option"
  EMBEDDING_API_BASE :: "string option"
  create_embedding_model :: "string option \<Rightarrow> exn option"
  token_encoder :: "exn option"
  build_engine :: "exn + 'h"

definition required_files :: "string list" where
  "required_files = [''entities.parquet'', ''relationships.parquet'', ''text_units.parquet'',
                     ''communities.parquet'', ''community_reports.parquet'']"

definition LANCEDB_COLLECTION_NAME :: string where
  "LANCEDB_COLLECTION_NAME = ''default-entity-description''"

text \<open>The \<open>except\<close> clauses of \<open>initialize_rag\<close>: log the exception, clear the flag.\<close>

definition init_failed :: "exn \<Rightarrow> 'h rag_state \<Rightarrow> log_record list \<Rightarrow> 'h rag_state \<times> log_record list" where
  "init_failed e st lg = (st\<lparr>initialized := False\<rparr>, lg @ [InitializationFailed e])"

definition initialize_rag :: "'h init_env \<Rightarrow> 'h rag_state \<Rightarrow> 'h rag_state \<times> log_record list" where
  "initialize_rag env st =
     (if initialized st \<or> \<not> GRAPHRAG_AVAILABLE env then
        (st, if \<not> GRAPHRAG_AVAILABLE env then [ModulesNotAvailable] else [])
      else if initialized st then (st, [])
      else
        (let missing_files = filter (\<lambda>f. f \<notin> set (output_files env)) required_files in
         if missing_files \<noteq> [] then (st, [MissingOutputFiles missing_files])
         else case load_data env of Some e \<Rightarrow> init_failed e st []
         | None \<Rightarrow>
         (case table_names env of Inl ldb_err \<Rightarrow> (st, [VectorStoreCheckFailed ldb_err])
          | Inr names \<Rightarrow>
         if LANCEDB_COLLECTION_NAME \<notin> set names then (st, [CollectionNotFound names])
         else
         (let st1 = st\<lparr>model_manager := True\<rparr>;
              (resolved_chat_api_key, lg1) = resolve_api_key (getenv env) (llm_api_key env);
              lg2 = lg1 @ (if \<not> truthy resolved_chat_api_key then [ChatKeyUnresolved] else [])
          in
          if \<not> truthy (LLM_MODEL env) \<or> \<not> truthy (LLM_API_BASE env)
          then (st1, lg2 @ [MissingChatConfig])
          else case create_chat_model env resolved_chat_api_key of Some e \<Rightarrow> init_failed e st1 lg2
          | None \<Rightarrow>
          (let (resolved_embedding_api_key, lg3) =
                 resolve_api_key (getenv env) (embedding_api_key env);
               lg4 = lg2 @ lg3 @
                 (if \<not> truthy resolved_embedding_api_key then [EmbeddingKeyUnresolved] else [])
           in
           if \<not> truthy (EMBEDDING_MODEL env) \<or> \<not> truthy (EMBEDDING_API_BASE env)
           then (st1, lg4 @ [MissingEmbeddingConfig])
           else case create_embedding_model env resolved_embedding_api_key of
             Some e \<Rightarrow> init_failed e st1 lg4
           | None \<Rightarrow>
           (case token_encoder env of Some e \<Rightarrow> init_failed e st1 lg4
            | None \<Rightarrow>
            (case build_engine env of Inl e \<Rightarrow> init_failed e st1 lg4
             | Inr engine \<Rightarrow> (st1\<lparr>search_engine := Some engine, initialized := True\<rparr>, lg4))))))))"

text \<open>The four fixed reply texts.\<close>

definition msg_not_initialized :: string where
  "msg_not_initialized = [
     CHR 0xE7, CHR 0x9F, CHR 0xA5, CHR 0xE8, CHR 0xAF, CHR 0x86, CHR 0xE5, CHR 0xBA, CHR 0x93,
     CHR 0xE5, CHR 0xBC, CHR 0x95, CHR 0xE6, CHR 0x93, CHR 0x8E, CHR 0xE5, CHR 0xB0, CHR 0x9A,
     CHR 0xE6, CHR 0x9C, CHR 0xAA, CHR 0xE5, CHR 0x88, CHR 0x9D, CHR 0xE5, CHR 0xA7, CHR 0x8B,
     CHR 0xE5, CHR 0x8C, CHR 0x96, CHR 0xEF, CHR 0xBC, CHR 0x8C, CHR 0xE8, CHR 0xAF, CHR 0xB7,
     CHR 0xE7, CHR 0xA8, CHR 0x8D, CHR 0xE5, CHR 0x90, CHR 0x8E, CHR 0xE9, CHR 0x87, CHR 0x8D,
     CHR 0xE8, CHR 0xAF, CHR 0x95, CHR 0xE6, CHR 0x88, CHR 0x96, CHR 0xE6, CHR 0xA3, CHR 0x80,
     CHR 0xE6, CHR 0x9F, CHR 0xA5, CHR 0xE5, CHR 0x90, CHR 0xAF, CHR 0xE5, CHR 0x8A, CHR 0xA8,
     CHR 0xE6, CHR 0x97, CHR 0xA5, CHR 0xE5, CHR 0xBF, CHR 0x97, CHR 0xE3, CHR 0x80, CHR 0x82]
     @ ''(Knowledge base engine not initialized. Please try again later or check startup logs.)''"

definition msg_no_answer :: string where
  "msg_no_answer = [
     CHR 0xE6, CHR 0x8A, CHR 0xB1, CHR 0xE6, CHR 0xAD, CHR 0x89, CHR 0xEF, CHR 0xBC, CHR 0x8C,
     CHR 0xE6, CHR 0x9C, CHR 0xAA, CHR 0xE8, CHR 0x83, CHR 0xBD, CHR 0xE4, CHR 0xBB, CHR 0x8E,
     CHR 0xE7, CHR 0x9F, CHR 0xA5, CHR 0xE8, CHR 0xAF, CHR 0x86, CHR 0xE5, CHR 0xBA, CHR 0x93,
     CHR 0xE4, CHR 0xB8, CHR 0xAD, CHR 0xE6, CHR 0x89, CHR 0xBE, CHR 0xE5, CHR 0x88, CHR 0xB0,
     CHR 0xE6, CHR 0x98, CHR 0x8E, CHR 0xE7, CHR 0xA1, CHR 0xAE, CHR 0xE7, CHR 0x9A, CHR 0x84,
     CHR 0xE7, CHR 0xAD, CHR 0x94, CHR 0xE6, CHR 0xA1, CHR 0x88, CHR 0xE3, CHR 0x80, CHR 0x82]
     @ ''(Sorry, could not find a clear answer in the knowledge base.)''"

definition msg_query_error :: string where
  "msg_query_error = [
     CHR 0xE6, CHR 0x9F, CHR 0xA5, CHR 0xE8, CHR 0xAF, CHR 0xA2, CHR 0xE7, CHR 0x9F, CHR 0xA5,
     CHR 0xE8, CHR 0xAF, CHR 0x86, CHR 0xE5, CHR 0xBA, CHR 0x93, CHR 0xE6, CHR 0x97, CHR 0xB6,
     CHR 0xE9, CHR 0x81, CHR 0x87, CHR 0xE5, CHR 0x88, CHR 0xB0, CHR 0xE9, CHR 0x94, CHR 0x99,
     CHR 0xE8, CHR 0xAF, CHR 0xAF, CHR 0xEF, CHR 0xBC, CHR 0x8C, CHR 0xE8, CHR 0xAF, CHR 0xB7,
     CHR 0xE7, CHR 0xA8, CHR 0x8D, CHR 0xE5, CHR 0x90, CHR 0x8E, CHR 0xE5, CHR 0x86, CHR 0x8D,
     CHR 0xE8, CHR 0xAF, CHR 0x95, CHR 0xE3, CHR 0x80, CHR 0x82]
     @ ''(Error querying the knowledge base, please try again later.) Details: ''"

definition error_msg :: string where
  "error_msg = [
     CHR 0xE6, CHR 0x8A, CHR 0xB1, CHR 0xE6, CHR 0xAD, CHR 0x89, CHR 0xEF, CHR 0xBC, CHR 0x8C,
     CHR 0xE5, CHR 0xA4, CHR 0x84, CHR 0xE7, CHR 0x90, CHR 0x86, CHR 0xE6, CHR 0x82, CHR 0xA8,
     CHR 0xE7, CHR 0x9A, CHR 0x84, CHR 0xE8, CHR 0xAF, CHR 0xB7, CHR 0xE6, CHR 0xB1, CHR 0x82,
     CHR 0xE6, CHR 0x97, CHR 0xB6, CHR 0xE5, CHR 0x8F, CHR 0x91, CHR 0xE7, CHR 0x94, CHR 0x9F,
     CHR 0xE5, CHR 0x86, CHR 0x85, CHR 0xE9, CHR 0x83, CHR 0xA8, CHR 0xE9, CHR 0x94, CHR 0x99,
     CHR 0xE8, CHR 0xAF, CHR 0xAF, CHR 0xE3, CHR 0x80, CHR 0x82]
     @ ''(Sorry, an internal error occurred while processing your request.)''"

text \<open>
  The result object of \<open>_search_engine.search\<close>: a falsy object, an object without a
  \<open>response\<close> attribute, or an object whose \<open>response\<close> is \<open>None\<close> or a string.
\<close>

datatype search_result = NoResult | NoResponseAttr | Response "string option"

text \<open>
  \<open>search\<close> is what \<open>await _search_engine.search(query=question)\<close> does on this call:
  it raises (\<open>Inl\<close>) or returns a result object. The value of \<open>query_rag\<close> is \<open>Inr\<close> of
  the string it returns, \<open>Inl\<close> of an exception that leaves it.
\<close>

definition query_rag ::
  "'h rag_state \<Rightarrow> exn + search_result \<Rightarrow> string \<Rightarrow> message list \<Rightarrow> exn + string" where
  "query_rag st search question chat_history =
     (if \<not> initialized st \<or> search_engine st = None then Inr msg_not_initialized
      else case search of
        Inl e \<Rightarrow> Inr (msg_query_error @ exn_class e)
      | Inr result \<Rightarrow>
          (case result of
             Response r \<Rightarrow> if truthy r then Inr (the r) else Inr msg_no_answer
           | _ \<Rightarrow> Inr msg_no_answer))"

text \<open>
  \<open>proc\<close> is what starting the \<open>graphrag index\<close> process and waiting for it does: it
  raises, or the process ends with a return code.
\<close>

definition trigger_ingestion :: "exn + int \<Rightarrow> 'h rag_state \<Rightarrow> (exn + unit) \<times> 'h rag_state" where
  "trigger_ingestion proc st =
     (let st' = st\<lparr>initialized := False, search_engine := None\<rparr> in
      case proc of
        Inl e \<Rightarrow>
          if exn_class e = ''FileNotFoundError''
          then (Inl (Exn ''RuntimeError'' ([CHR 0x27] @ ''graphrag'' @ [CHR 0x27] @ '' command not found.'')), st')
          else (Inl (Exn ''RuntimeError'' (''Indexing trigger failed: '' @ exn_msg e)), st')
      | Inr returncode \<Rightarrow>
          if returncode \<noteq> 0
          then (Inl (Exn ''RuntimeError''
                  (''Indexing trigger failed: '' @ ''GraphRAG indexing failed. Check logs above.'')), st')
          else (Inr (), st'))"

section \<open>main.py\<close>

text \<open>
  The server-sent events of \<open>stream_response\<close>. The \<open>end\<close> event carries the topic id
  and the message history it serialises (\<open>[]\<close> when the topic cannot be loaded).
\<close>

datatype event = Start string | Chunk string | Error string | End string "message list"

datatype http_error = HTTPException nat

fun is_end :: "event \<Rightarrow> bool" where
  "is_end (End tid h) = True"
| "is_end e = False"

fun chunk_payloads :: "event list \<Rightarrow> string list" where
  "chunk_payloads [] = []"
| "chunk_payloads (Chunk c # es) = c # chunk_payloads es"
| "chunk_payloads (e # es) = chunk_payloads es"

fun error_payloads :: "event list \<Rightarrow> string list" where
  "error_payloads [] = []"
| "error_payloads (Error c # es) = c # error_payloads es"
| "error_payloads (e # es) = error_payloads es"

definition history_for_llm :: "topic \<Rightarrow> message list" where
  "history_for_llm topic = drop (length (messages topic) - 10) (messages topic)"

definition updated_history :: "directory \<Rightarrow> string \<Rightarrow> message list" where
  "updated_history dir tid = (case load_topic dir tid of Some updated_topic \<Rightarrow> messages updated_topic | None \<Rightarrow> [])"

text \<open>
  The \<open>try\<close> block of \<open>stream_response\<close> from the point where the awaited
  \<open>query_rag\<close> has returned a reply (\<open>Inr\<close>) or raised (\<open>Inl\<close>), and its \<open>except\<close>
  block. The result is the events yielded and the directory afterwards.
\<close>

definition stream_body ::
  "exn + string \<Rightarrow> string \<Rightarrow> write_outcome \<Rightarrow> directory \<Rightarrow> event list \<times> directory" where
  "stream_body reply tid io dir =
     (case reply of
        Inr full_ai_reply \<Rightarrow>
          (let dir' = snd (add_message_to_topic io tid
                             \<lparr>role = ''assistant'', content = full_ai_reply\<rparr> dir)
           in (Start tid # map (\<lambda>char. Chunk [char]) full_ai_reply
                 @ [End tid (updated_history dir' tid)], dir'))
      | Inl e \<Rightarrow>
          (let dir' = snd (add_message_to_topic io tid
                             \<lparr>role = ''assistant'', content = error_msg\<rparr> dir)
           in ([Start tid, Error error_msg, End tid (updated_history dir' tid)], dir')))"

text \<open>
  A run of \<open>stream_response\<close>: the events, the directory afterwards, and the question
  and history that were handed to \<open>query_rag\<close>.
\<close>

record stream_result =
  events :: "event list"
  directory_after :: directory
  query_question :: string
  query_history :: "message list"

definition stream_response ::
  "'h rag_state \<Rightarrow> exn + search_result \<Rightarrow> string \<Rightarrow> topic \<Rightarrow> string \<Rightarrow> write_outcome \<Rightarrow>
     directory \<Rightarrow> stream_result" where
  "stream_response st search tid topic user_message_content io dir =
     (let reply = query_rag st search user_message_content (history_for_llm topic);
          (evs, dir') = stream_body reply tid io dir
      in \<lparr>events = evs, directory_after = dir', query_question = user_message_content,
          query_history = history_for_llm topic\<rparr>)"

text \<open>
  \<open>body\<close> is the \<open>message\<close> field of the request body (\<open>None\<close> when the body is not JSON
  or has no such field); \<open>io_user\<close> and \<open>io_ai\<close> are the outcomes of the two writes.
\<close>

definition post_message ::
  "'h rag_state \<Rightarrow> exn + search_result \<Rightarrow> string \<Rightarrow> string option \<Rightarrow> write_outcome \<Rightarrow>
     write_outcome \<Rightarrow> directory \<Rightarrow> http_error + stream_result" where
  "post_message st search tid body io_user io_ai dir =
     (if \<not> truthy body then Inl (HTTPException 400)
      else case load_topic dir tid of
        None \<Rightarrow> Inl (HTTPException 404)
      | Some topic \<Rightarrow>
          (let user_message = \<lparr>role = ''user'', content = the body\<rparr>;
               dir1 = snd (add_message_to_topic io_user tid user_message dir)
           in Inr (stream_response st search tid topic (the body) io_ai dir1)))"

section \<open>Properties of the topic store\<close>

lemma rstrip_filter_noop:
  assumes "\<forall>c \<in> set s. \<not> isspace c"
  shows "rstrip s = s"
proof -
  have "dropWhile isspace (rev s) = rev s"
    using assms by (cases "rev s") auto
  then show ?thesis by (simp add: rstrip_def)
qed

lemma isalnum_not_space: "isalnum c \<or> c \<in> set [CHR ''-'', CHR ''_''] \<Longrightarrow> \<not> isspace c"
  by (auto simp: isalnum_def isspace_def less_eq_char_def)

lemma safe_topic_id_filter:
  "safe_topic_id tid = filter (\<lambda>c. isalnum c \<or> c \<in> set [CHR ''-'', CHR ''_'']) tid"
  unfolding safe_topic_id_def
  by (rule rstrip_filter_noop) (use isalnum_not_space in auto)

text \<open>
  The empty directory is coherent and every operation of the store keeps a directory
  coherent; in a coherent directory a topic is loaded from the file named after it.
\<close>

lemma coherent_empty: "coherent []"
  by (simp add: coherent_def)

lemma coherent_save: "coherent dir \<Longrightarrow> coherent (save_topic io t dir)"
  by (cases io; cases "get_topic_path (topic_id t)")
     (auto simp: coherent_def save_topic_def update_conv' split: if_splits)

lemma coherent_load:
  assumes "coherent dir" "load_topic dir tid = Some t"
  shows "get_topic_path (topic_id t) = get_topic_path tid"
proof -
  from assms(2) obtain p where p: "get_topic_path tid = Inr p" and "map_of dir p = Some (Json t)"
    by (auto simp: load_topic_def split: sum.splits option.splits file_content.splits)
  with assms(1) show ?thesis by (simp add: coherent_def)
qed

lemma coherent_create: "coherent dir \<Longrightarrow> coherent (snd (create_new_topic u name io dir))"
  by (simp add: create_new_topic_def Let_def coherent_save)

lemma coherent_add: "coherent dir \<Longrightarrow> coherent (snd (add_message_to_topic io tid msg dir))"
  by (cases "load_topic dir tid") (simp_all add: add_message_to_topic_def Let_def coherent_save)

lemma coherent_delete: "coherent dir \<Longrightarrow> coherent (snd (delete_topic_file rm tid dir))"
  by (cases rm; cases "get_topic_path tid")
     (auto simp: coherent_def delete_topic_file_def delete_conv' Let_def split: if_splits)

lemma coherent_stream: "coherent dir \<Longrightarrow> coherent (snd (stream_body reply tid io dir))"
  by (cases reply) (simp_all add: stream_body_def Let_def coherent_add)

lemma uuid_shaped_chars:
  assumes "uuid_shaped u" "c \<in> set u"
  shows "hexdigit c \<or> c = CHR ''-''"
proof -
  from assms(2) obtain i where i: "i < length u" "u ! i = c"
    by (auto simp: in_set_conv_nth)
  then have "(i, c) \<in> set (enumerate 0 u)"
    by (auto simp: in_set_enumerate_eq)
  with assms(1) show ?thesis
    by (auto simp: uuid_shaped_def list_all_iff split: if_splits)
qed

lemma hexdigit_isalnum: "hexdigit c \<Longrightarrow> isalnum c"
  by (auto simp: hexdigit_def isalnum_def less_eq_char_def)

lemma uuid_shaped_safe:
  assumes "uuid_shaped u"
  shows "safe_topic_id u = u" and "u \<noteq> []"
proof -
  have "\<forall>c \<in> set u. isalnum c \<or> c \<in> set [CHR ''-'', CHR ''_'']"
    using uuid_shaped_chars [OF assms] hexdigit_isalnum by auto
  then show "safe_topic_id u = u"
    by (simp add: safe_topic_id_filter)
  show "u \<noteq> []" using assms by (auto simp: uuid_shaped_def)
qed

lemma load_after_save:
  assumes "get_topic_path (topic_id t) = Inr p" "get_topic_path tid = Inr p"
  shows "load_topic (save_topic WriteOk t dir) tid = Some t"
  using assms by (simp add: load_topic_def save_topic_def update_conv')

text \<open>
  Claim C7. For every non-empty name, \<open>create_new_topic\<close> with that name, when the save
  succeeds (the identifier has the shape of a UUID and the write goes through), followed
  by \<open>load_topic\<close> on the identifier of the returned topic, gives a topic with exactly
  that name and no messages.
\<close>

theorem create_then_load:
  assumes "uuid_shaped u" and "n \<noteq> []"
  shows "load_topic (snd (create_new_topic u (Some n) WriteOk dir))
           (topic_id (fst (create_new_topic u (Some n) WriteOk dir)))
         = Some \<lparr>topic_id = u, topic_name = n, messages = []\<rparr>"
proof -
  define t where "t = \<lparr>topic_id = u, topic_name = n, messages = []\<rparr>"
  have c: "create_new_topic u (Some n) WriteOk dir = (t, save_topic WriteOk t dir)"
    using assms(2) by (simp add: create_new_topic_def truthy_def Let_def t_def)
  have "get_topic_path u = Inr (u @ ''.json'')"
    using uuid_shaped_safe [OF assms(1)] by (simp add: get_topic_path_def)
  then have "load_topic (save_topic WriteOk t dir) u = Some t"
    using load_after_save [of t _ u dir] by (simp add: t_def)
  then show ?thesis
    by (simp add: c) (simp add: t_def)
qed

theorem create_then_load_witness:
  "uuid_shaped ''123e4567-e89b-42d3-a456-426614174000'' \<and> ''Algebra'' \<noteq> [] \<and>
   load_topic (snd (create_new_topic ''123e4567-e89b-42d3-a456-426614174000'' (Some ''Algebra'') WriteOk []))
     (topic_id (fst (create_new_topic ''123e4567-e89b-42d3-a456-426614174000'' (Some ''Algebra'') WriteOk [])))
   = Some \<lparr>topic_id = ''123e4567-e89b-42d3-a456-426614174000'', topic_name = ''Algebra'', messages = []\<rparr>"
proof -
  have u: "uuid_shaped ''123e4567-e89b-42d3-a456-426614174000''"
    by (simp add: uuid_shaped_def hexdigit_def enumerate_eq_zip)
  have n: "''Algebra'' \<noteq> []" by simp
  show ?thesis
    using u n create_then_load [OF u n, of "[]"] by simp
qed

lemma delete_absent:
  assumes "get_topic_path tid = Inr p" "\<not> exists dir p"
  shows "delete_topic_file rm tid dir = (True, dir)"
  using assms by (simp add: delete_topic_file_def)

lemma delete_removed:
  assumes "get_topic_path tid = Inr p" "exists dir p"
  shows "delete_topic_file Removed tid dir = (True, AList.delete p dir)"
  using assms by (simp add: delete_topic_file_def exists_def delete_conv')

lemma not_exists_delete: "\<not> exists (AList.delete p dir) p"
  by (simp add: exists_def delete_conv')

lemma delete_success_absent:
  assumes "get_topic_path tid = Inr p" "fst (delete_topic_file rm tid dir)"
  shows "\<not> exists (snd (delete_topic_file rm tid dir)) p"
  using assms
  by (cases rm; cases "exists dir p")
     (simp_all add: delete_topic_file_def not_exists_delete Let_def)

lemma delete_failure_present:
  assumes "get_topic_path tid = Inr p" "\<not> fst (delete_topic_file rm tid dir)"
  shows "exists (snd (delete_topic_file rm tid dir)) p"
  using assms
  by (cases rm; cases "exists dir p")
     (simp_all add: delete_topic_file_def not_exists_delete Let_def)

text \<open>
  Claim C8. \<open>delete_topic_file\<close> is idempotent: after a call that returned \<open>True\<close>, a
  second call on the same id returns \<open>True\<close> again and changes nothing, whatever the
  operating system would do with a removal; deleting a topic whose file is absent returns
  \<open>True\<close>; a removal that goes through returns \<open>True\<close>; and \<open>False\<close> is returned only
  when the id sanitizes to the empty string or the file still exists after the attempt.
\<close>

theorem delete_topic_file_idempotent:
  "(fst (delete_topic_file rm1 tid dir) \<longrightarrow>
      delete_topic_file rm2 tid (snd (delete_topic_file rm1 tid dir))
        = (True, snd (delete_topic_file rm1 tid dir))) \<and>
   (safe_topic_id tid \<noteq> [] \<and> \<not> exists dir (safe_topic_id tid @ ''.json'') \<longrightarrow>
      delete_topic_file rm1 tid dir = (True, dir)) \<and>
   (safe_topic_id tid \<noteq> [] \<and> rm1 = Removed \<longrightarrow> fst (delete_topic_file rm1 tid dir)) \<and>
   (\<not> fst (delete_topic_file rm1 tid dir) \<longrightarrow>
      safe_topic_id tid = [] \<or>
      exists (snd (delete_topic_file rm1 tid dir)) (safe_topic_id tid @ ''.json''))"
proof (cases "safe_topic_id tid = []")
  case True
  then show ?thesis by (simp add: delete_topic_file_def get_topic_path_def)
next
  case False
  define p where "p = safe_topic_id tid @ ''.json''"
  have path: "get_topic_path tid = Inr p"
    using False by (simp add: get_topic_path_def p_def)
  have a: "delete_topic_file rm2 tid (snd (delete_topic_file rm1 tid dir))
             = (True, snd (delete_topic_file rm1 tid dir))"
    if "fst (delete_topic_file rm1 tid dir)"
    using delete_absent [OF path delete_success_absent [OF path that]] .
  have b: "delete_topic_file rm1 tid dir = (True, dir)" if "\<not> exists dir p"
    using delete_absent [OF path that] .
  have c: "fst (delete_topic_file Removed tid dir)"
    using delete_absent [OF path, of dir Removed] delete_removed [OF path, of dir]
    by (cases "exists dir p") simp_all
  have d: "exists (snd (delete_topic_file rm1 tid dir)) p"
    if "\<not> fst (delete_topic_file rm1 tid dir)"
    using delete_failure_present [OF path that] .
  show ?thesis
    using a b c d by (auto simp: p_def)
qed

theorem delete_topic_file_idempotent_witness:
  "fst (delete_topic_file Removed ''abc'' [(''abc.json'', Garbage)]) \<and>
   delete_topic_file StillThere ''abc'' (snd (delete_topic_file Removed ''abc'' [(''abc.json'', Garbage)]))
     = (True, snd (delete_topic_file Removed ''abc'' [(''abc.json'', Garbage)])) \<and>
   snd (delete_topic_file Removed ''abc'' [(''abc.json'', Garbage)]) = [] \<and>
   \<not> exists [] (safe_topic_id ''abc'' @ ''.json'') \<and>
   delete_topic_file Removed ''abc'' [] = (True, []) \<and>
   \<not> fst (delete_topic_file (RemoveRaises (Exn ''PermissionError'' ''denied'')) ''abc''
           [(''abc.json'', Garbage)]) \<and>
   exists (snd (delete_topic_file (RemoveRaises (Exn ''PermissionError'' ''denied'')) ''abc''
           [(''abc.json'', Garbage)])) (safe_topic_id ''abc'' @ ''.json'')"
proof -
  have s: "safe_topic_id ''abc'' = ''abc''"
    by (simp add: safe_topic_id_def rstrip_def isalnum_def isspace_def)
  have h: "fst (delete_topic_file Removed ''abc'' [(''abc.json'', Garbage)])"
    by (simp add: delete_topic_file_def get_topic_path_def s exists_def)
  have e: "snd (delete_topic_file Removed ''abc'' [(''abc.json'', Garbage)]) = []"
    by (simp add: delete_topic_file_def get_topic_path_def s exists_def)
  have a: "\<not> exists [] (safe_topic_id ''abc'' @ ''.json'')"
    by (simp add: exists_def)
  have f: "\<not> fst (delete_topic_file (RemoveRaises (Exn ''PermissionError'' ''denied'')) ''abc''
                  [(''abc.json'', Garbage)])"
    by (simp add: delete_topic_file_def get_topic_path_def s exists_def)
  show ?thesis
    using h e a f s
      delete_topic_file_idempotent [of Removed "''abc''" "[(''abc.json'', Garbage)]" StillThere]
      delete_topic_file_idempotent [of Removed "''abc''" "[]" StillThere]
      delete_topic_file_idempotent [of "RemoveRaises (Exn ''PermissionError'' ''denied'')"
         "''abc''" "[(''abc.json'', Garbage)]" StillThere]
    by simp
qed

lemma truncate50_cases:
  "truncate50 s = (if length s > 50 then take 50 s @ ''...'' else s)"
  by (simp add: truncate50_def)

lemma first_content_hd:
  assumes "ms \<noteq> []" "role (hd ms) = r"
  shows "first_content r ms = Some (content (hd ms))"
  using assms by (cases ms) simp_all

lemma preview_of_default:
  assumes roles: "\<forall>m \<in> set (messages t). role m = ''user'' \<or> role m = ''assistant''"
    and u: "\<not> truthy (first_content ''user'' (messages t))"
    and a: "\<not> truthy (first_content ''assistant'' (messages t))"
  shows "preview_of t = ''New Topic''"
proof (cases "messages t")
  case Nil
  then show ?thesis by (simp add: preview_of_def truthy_def)
next
  case (Cons m ms)
  then have ne: "messages t \<noteq> []" and hd: "hd (messages t) = m" by simp_all
  from roles Cons have "role m = ''user'' \<or> role m = ''assistant''" by simp
  then have "content m = []"
  proof
    assume "role m = ''user''"
    then have "first_content ''user'' (messages t) = Some (content m)"
      using first_content_hd [OF ne] hd by simp
    with u show ?thesis by (simp add: truthy_def)
  next
    assume "role m = ''assistant''"
    then have "first_content ''assistant'' (messages t) = Some (content m)"
      using first_content_hd [OF ne] hd by simp
    with a show ?thesis by (simp add: truthy_def)
  qed
  then show ?thesis
    using u a ne hd by (simp add: preview_of_def Let_def)
qed

lemma list_topics_entries:
  assumes "i \<in> set (list_topics dir)"
  shows "\<exists>filename t. filename \<in> fst ` set dir \<and>
           load_topic dir (take (length filename - 5) filename) = Some t \<and>
           i = \<lparr>info_id = topic_id t, info_name = topic_name t, preview = preview_of t\<rparr>"
proof -
  from assms obtain filename where f: "filename \<in> fst ` set dir"
    and i: "i \<in> set (case load_topic dir (take (length filename - 5) filename) of
                        None \<Rightarrow> []
                      | Some t \<Rightarrow> [\<lparr>info_id = topic_id t, info_name = topic_name t,
                                    preview = preview_of t\<rparr>])"
    by (auto simp: list_topics_def split: if_splits)
  from i obtain t where "load_topic dir (take (length filename - 5) filename) = Some t"
    and "i = \<lparr>info_id = topic_id t, info_name = topic_name t, preview = preview_of t\<rparr>"
    by (cases "load_topic dir (take (length filename - 5) filename)") auto
  with f show ?thesis by blast
qed

text \<open>
  Claim C6 does not hold as stated: a topic without messages is listed with the preview
  \<open>New Topic\<close>, not with an empty preview.
\<close>

theorem list_topics_preview_counterexample:
  "list_topics [(''t1.json'', Json \<lparr>topic_id = ''t1'', topic_name = ''Algebra'', messages = []\<rparr>)]
     = [\<lparr>info_id = ''t1'', info_name = ''Algebra'', preview = ''New Topic''\<rparr>] \<and>
   ''New Topic'' \<noteq> ''''"
  by code_simp

lemma endswith_last:
  assumes "endswith s p" "p \<noteq> []"
  shows "last s = last p"
proof -
  from assms have d: "drop (length s - length p) s = p" and "length p \<le> length s"
    by (simp_all add: endswith_def)
  with assms(2) have "length s - length p < length s" by (cases p) auto
  then have "last (drop (length s - length p) s) = last s" by (rule last_drop)
  with d show ?thesis by simp
qed

lemma json_not_corrupted: "endswith filename ''.json'' \<Longrightarrow> \<not> endswith filename ''.corrupted''"
  using endswith_last [of filename "''.json''"] endswith_last [of filename "''.corrupted''"]
  by auto

lemma list_topics_complete:
  assumes "filename \<in> fst ` set dir" "endswith filename ''.json''"
    and "load_topic dir (take (length filename - 5) filename) = Some t"
  shows "\<lparr>info_id = topic_id t, info_name = topic_name t, preview = preview_of t\<rparr>
           \<in> set (list_topics dir)"
  using assms json_not_corrupted [OF assms(2)]
  by (force simp: list_topics_def)

text \<open>
  Claim C6, amended. The entries of \<open>list_topics\<close> are exactly built from the topics
  that load from the \<open>.json\<close> files of the directory, each with the preview computed
  from that topic. The preview is taken from the first user message when that message is
  not empty, else from the first assistant message when that one is not empty; a source
  message of more than 50 characters gives its first 50 characters followed by \<open>...\<close>,
  a shorter one gives the whole message with no ellipsis. When neither exists (and all
  messages have the role user or assistant) the preview is \<open>New Topic\<close>.
\<close>

theorem list_topics_preview:
  "(\<forall>i \<in> set (list_topics dir). \<exists>filename t. filename \<in> fst ` set dir \<and>
       load_topic dir (take (length filename - 5) filename) = Some t \<and>
       i = \<lparr>info_id = topic_id t, info_name = topic_name t, preview = preview_of t\<rparr>) \<and>
   (fn \<in> fst ` set dir \<and> endswith fn ''.json'' \<and>
    load_topic dir (take (length fn - 5) fn) = Some t \<longrightarrow>
      \<lparr>info_id = topic_id t, info_name = topic_name t, preview = preview_of t\<rparr>
        \<in> set (list_topics dir)) \<and>
   (first_content ''user'' (messages t) = Some u \<and> u \<noteq> [] \<longrightarrow>
      preview_of t = (if length u > 50 then take 50 u @ ''...'' else u)) \<and>
   (\<not> truthy (first_content ''user'' (messages t)) \<and>
    first_content ''assistant'' (messages t) = Some a \<and> a \<noteq> [] \<longrightarrow>
      preview_of t = (if length a > 50 then take 50 a @ ''...'' else a)) \<and>
   ((\<forall>m \<in> set (messages t). role m = ''user'' \<or> role m = ''assistant'') \<and>
    \<not> truthy (first_content ''user'' (messages t)) \<and>
    \<not> truthy (first_content ''assistant'' (messages t)) \<longrightarrow>
      preview_of t = ''New Topic'')"
proof -
  have 1: "preview_of t = (if length u > 50 then take 50 u @ ''...'' else u)"
    if "first_content ''user'' (messages t) = Some u" "u \<noteq> []"
    using that by (simp add: preview_of_def truthy_def truncate50_cases)
  have 2: "preview_of t = (if length a > 50 then take 50 a @ ''...'' else a)"
    if "\<not> truthy (first_content ''user'' (messages t))"
      "first_content ''assistant'' (messages t) = Some a" "a \<noteq> []"
  proof -
    from that(2) have "messages t \<noteq> []" by auto
    with that show ?thesis
      by (simp add: preview_of_def truthy_def truncate50_cases)
  qed
  show ?thesis
    using list_topics_entries [of _ dir] list_topics_complete [of fn dir t] 1 2
      preview_of_default [of t]
    by blast
qed

theorem list_topics_preview_witness:
  "preview_of \<lparr>topic_id = ''t1'', topic_name = ''Algebra'',
       messages = [\<lparr>role = ''assistant'', content = ''Welcome''\<rparr>,
                   \<lparr>role = ''user'', content = ''What is a derivative?''\<rparr>]\<rparr>
     = ''What is a derivative?'' \<and>
   preview_of \<lparr>topic_id = ''t2'', topic_name = ''Long'',
       messages = [\<lparr>role = ''user'',
          content = ''012345678901234567890123456789012345678901234567890123456789''\<rparr>]\<rparr>
     = ''01234567890123456789012345678901234567890123456789...'' \<and>
   preview_of \<lparr>topic_id = ''t3'', topic_name = ''Greeting'',
       messages = [\<lparr>role = ''assistant'', content = ''Welcome''\<rparr>]\<rparr> = ''Welcome'' \<and>
   preview_of \<lparr>topic_id = ''t4'', topic_name = ''Empty'', messages = []\<rparr> = ''New Topic'' \<and>
   \<lparr>info_id = ''t4'', info_name = ''Empty'', preview = ''New Topic''\<rparr>
     \<in> set (list_topics [(''t4.json'', Json \<lparr>topic_id = ''t4'', topic_name = ''Empty'', messages = []\<rparr>)])"
proof -
  have s: "safe_topic_id ''t4'' = ''t4''"
    by (simp add: safe_topic_id_def rstrip_def isalnum_def isspace_def)
  have l: "load_topic [(''t4.json'', Json \<lparr>topic_id = ''t4'', topic_name = ''Empty'', messages = []\<rparr>)]
             (take (length ''t4.json'' - 5) ''t4.json'')
           = Some \<lparr>topic_id = ''t4'', topic_name = ''Empty'', messages = []\<rparr>"
    by (simp add: load_topic_def get_topic_path_def s)
  have e: "endswith ''t4.json'' ''.json''"
    by (simp add: endswith_def)
  have 1: "preview_of \<lparr>topic_id = ''t1'', topic_name = ''Algebra'',
       messages = [\<lparr>role = ''assistant'', content = ''Welcome''\<rparr>,
                   \<lparr>role = ''user'', content = ''What is a derivative?''\<rparr>]\<rparr>
     = ''What is a derivative?''"
    using list_topics_preview [where t = "\<lparr>topic_id = ''t1'', topic_name = ''Algebra'',
         messages = [\<lparr>role = ''assistant'', content = ''Welcome''\<rparr>,
                     \<lparr>role = ''user'', content = ''What is a derivative?''\<rparr>]\<rparr>"
         and u = "''What is a derivative?''" and a = "''Welcome''" and dir = "[]" and fn = "[]"]
    by simp
  have 2: "preview_of \<lparr>topic_id = ''t2'', topic_name = ''Long'',
       messages = [\<lparr>role = ''user'',
          content = ''012345678901234567890123456789012345678901234567890123456789''\<rparr>]\<rparr>
     = ''01234567890123456789012345678901234567890123456789...''"
    using list_topics_preview [where t = "\<lparr>topic_id = ''t2'', topic_name = ''Long'',
         messages = [\<lparr>role = ''user'',
           content = ''012345678901234567890123456789012345678901234567890123456789''\<rparr>]\<rparr>"
         and u = "''012345678901234567890123456789012345678901234567890123456789''"
         and a = "[]" and dir = "[]" and fn = "[]"]
    by simp
  have 3: "preview_of \<lparr>topic_id = ''t3'', topic_name = ''Greeting'',
       messages = [\<lparr>role = ''assistant'', content = ''Welcome''\<rparr>]\<rparr> = ''Welcome''"
    using list_topics_preview [where t = "\<lparr>topic_id = ''t3'', topic_name = ''Greeting'',
         messages = [\<lparr>role = ''assistant'', content = ''Welcome''\<rparr>]\<rparr>"
         and u = "[]" and a = "''Welcome''" and dir = "[]" and fn = "[]"]
    by (simp add: truthy_def)
  note t4 = list_topics_preview [where t = "\<lparr>topic_id = ''t4'', topic_name = ''Empty'', messages = []\<rparr>"
         and u = "[]" and a = "[]"
         and dir = "[(''t4.json'', Json \<lparr>topic_id = ''t4'', topic_name = ''Empty'', messages = []\<rparr>)]"
         and fn = "''t4.json''"]
  have 4: "preview_of \<lparr>topic_id = ''t4'', topic_name = ''Empty'', messages = []\<rparr> = ''New Topic''"
    using t4 by (simp add: truthy_def)
  have m: "''t4.json'' \<in> fst ` set [(''t4.json'', Json \<lparr>topic_id = ''t4'', topic_name = ''Empty'', messages = []\<rparr>)]"
    by simp
  have 5: "\<lparr>info_id = topic_id \<lparr>topic_id = ''t4'', topic_name = ''Empty'', messages = []\<rparr>,
            info_name = topic_name \<lparr>topic_id = ''t4'', topic_name = ''Empty'', messages = []\<rparr>,
            preview = preview_of \<lparr>topic_id = ''t4'', topic_name = ''Empty'', messages = []\<rparr>\<rparr>
     \<in> set (list_topics [(''t4.json'', Json \<lparr>topic_id = ''t4'', topic_name = ''Empty'', messages = []\<rparr>)])"
    using t4 m e l by blast
  show ?thesis
    using 1 2 3 4 5 by simp
qed

section \<open>Properties of the query pipeline and the engine state\<close>

text \<open>
  Claim C5. For every question and history, when the engine is not ready (the flag is
  not set, or there is no engine handle), \<open>query_rag\<close> returns the fixed "engine not
  initialized" text and does not raise, whatever the engine would have done.
\<close>

theorem query_rag_not_ready:
  "\<not> initialized st \<or> search_engine st = None \<Longrightarrow>
     query_rag st search question chat_history = Inr msg_not_initialized"
  by (auto simp: query_rag_def)

theorem query_rag_not_ready_witness:
  "query_rag \<lparr>model_manager = False, search_engine = None :: nat option, initialized = False\<rparr>
     (Inr (Response (Some ''42''))) ''What is a derivative?'' [] = Inr msg_not_initialized \<and>
   query_rag \<lparr>model_manager = True, search_engine = None :: nat option, initialized = True\<rparr>
     (Inl (Exn ''TimeoutError'' ''late'')) ''What is a derivative?'' [] = Inr msg_not_initialized"
  using query_rag_not_ready [of "\<lparr>model_manager = False, search_engine = None :: nat option, initialized = False\<rparr>"
          "Inr (Response (Some ''42''))" "''What is a derivative?''" "[]"]
        query_rag_not_ready [of "\<lparr>model_manager = True, search_engine = None :: nat option, initialized = True\<rparr>"
          "Inl (Exn ''TimeoutError'' ''late'')" "''What is a derivative?''" "[]"]
  by simp

text \<open>
  Claim C4 does not hold as stated: for an empty or malformed result the text returned
  is the "no clear answer" text, which is not the "query failed" text and names no
  error category.
\<close>

theorem query_rag_empty_result_counterexample:
  "query_rag \<lparr>model_manager = True, search_engine = Some (0::nat), initialized = True\<rparr>
     (Inr (Response (Some ''''))) ''What is a derivative?'' [] = Inr msg_no_answer \<and>
   take (length msg_query_error) msg_no_answer \<noteq> msg_query_error"
  by (simp add: query_rag_def truthy_def msg_no_answer_def msg_query_error_def)

text \<open>
  Claim C4, amended. With the engine ready: when the engine call raises, \<open>query_rag\<close>
  returns the fixed "query failed" text followed by the class name of the exception;
  when the call returns no result object, one without a response, or an empty response,
  it returns the fixed "no clear answer" text; and whatever the call does, \<open>query_rag\<close>
  returns a string and lets no exception through.
\<close>

theorem query_rag_fallbacks:
  "initialized st \<and> search_engine st \<noteq> None \<longrightarrow>
     query_rag st (Inl e) question chat_history = Inr (msg_query_error @ exn_class e) \<and>
     (r \<in> {NoResult, NoResponseAttr, Response None, Response (Some [])} \<longrightarrow>
        query_rag st (Inr r) question chat_history = Inr msg_no_answer) \<and>
     (\<exists>s. query_rag st search question chat_history = Inr s)"
  by (auto simp: query_rag_def truthy_def split: sum.splits search_result.splits)

theorem query_rag_fallbacks_witness:
  "query_rag \<lparr>model_manager = True, search_engine = Some (0::nat), initialized = True\<rparr>
     (Inl (Exn ''TimeoutError'' ''late'')) ''q'' [] = Inr (msg_query_error @ ''TimeoutError'') \<and>
   query_rag \<lparr>model_manager = True, search_engine = Some (0::nat), initialized = True\<rparr>
     (Inr NoResponseAttr) ''q'' [] = Inr msg_no_answer"
  using query_rag_fallbacks [of "\<lparr>model_manager = True, search_engine = Some (0::nat), initialized = True\<rparr>"
          "Exn ''TimeoutError'' ''late''" "''q''" "[]" NoResponseAttr "Inr NoResponseAttr"]
  by simp

text \<open>
  Claim C3 does not hold as stated: with the engine initialized and holding a handle, a
  trigger whose command is missing, or whose process exits with status 1, leaves the
  engine uninitialized and without a handle.
\<close>

theorem trigger_ingestion_failure_counterexample:
  "initialized \<lparr>model_manager = True, search_engine = Some (1::nat), initialized = True\<rparr> \<and>
   trigger_ingestion (Inl (Exn ''FileNotFoundError'' ''graphrag''))
     \<lparr>model_manager = True, search_engine = Some (1::nat), initialized = True\<rparr>
   = (Inl (Exn ''RuntimeError'' ([CHR 0x27] @ ''graphrag'' @ [CHR 0x27] @ '' command not found.'')),
      \<lparr>model_manager = True, search_engine = None, initialized = False\<rparr>) \<and>
   trigger_ingestion (Inr 1)
     \<lparr>model_manager = True, search_engine = Some (1::nat), initialized = True\<rparr>
   = (Inl (Exn ''RuntimeError'' ''Indexing trigger failed: GraphRAG indexing failed. Check logs above.''),
      \<lparr>model_manager = True, search_engine = None, initialized = False\<rparr>)"
  by (simp add: trigger_ingestion_def)

text \<open>
  Claim C3, amended. Every run of \<open>trigger_ingestion\<close> resets the engine state (flag
  cleared, handle dropped), whether the ingestion then fails or succeeds; a run whose
  process cannot be started or exits with a non-zero status raises a \<open>RuntimeError\<close>
  to the caller, and a run that exits with status 0 returns normally.
\<close>

theorem trigger_ingestion_resets:
  "snd (trigger_ingestion proc st) = st\<lparr>initialized := False, search_engine := None\<rparr> \<and>
   (proc \<noteq> Inr 0 \<longrightarrow> (\<exists>m. fst (trigger_ingestion proc st) = Inl (Exn ''RuntimeError'' m))) \<and>
   (proc = Inr 0 \<longrightarrow> fst (trigger_ingestion proc st) = Inr ())"
  by (auto simp: trigger_ingestion_def Let_def split: sum.splits)

theorem trigger_ingestion_resets_witness:
  "Inr 2 \<noteq> (Inr 0 :: exn + int) \<and>
   (\<exists>m. fst (trigger_ingestion (Inr 2)
        \<lparr>model_manager = True, search_engine = Some (1::nat), initialized = True\<rparr>) = Inl (Exn ''RuntimeError'' m)) \<and>
   fst (trigger_ingestion (Inr 0)
        \<lparr>model_manager = True, search_engine = Some (1::nat), initialized = True\<rparr>) = Inr () \<and>
   snd (trigger_ingestion (Inr 0)
        \<lparr>model_manager = True, search_engine = Some (1::nat), initialized = True\<rparr>)
     = \<lparr>model_manager = True, search_engine = None, initialized = False\<rparr>"
  using trigger_ingestion_resets [of "Inr 2" "\<lparr>model_manager = True, search_engine = Some (1::nat), initialized = True\<rparr>"]
        trigger_ingestion_resets [of "Inr 0" "\<lparr>model_manager = True, search_engine = Some (1::nat), initialized = True\<rparr>"]
  by simp

lemma wrapped_iff:
  "(k \<noteq> [] \<and> startswith k ''${'' \<and> endswith k ''}'') = (\<exists>v. k = ''${'' @ v @ ''}'')"
proof
  assume a: "k \<noteq> [] \<and> startswith k ''${'' \<and> endswith k ''}''"
  then have "take (length ''${'') k = ''${''" and "length ''}'' \<le> length k"
    and "drop (length k - length ''}'') k = ''}''"
    by (simp_all only: startswith_def endswith_def)
  then have h: "take 2 k = ''${''" and l: "1 \<le> length k" and d: "drop (length k - 1) k = ''}''"
    by (simp_all add: numeral_2_eq_2)
  from h have k: "k = ''${'' @ drop 2 k"
    by (metis append_take_drop_id)
  from h have len2: "2 \<le> length k"
    by (cases k; cases "tl k") auto
  have "length k \<noteq> 2"
  proof
    assume "length k = 2"
    with h have "k = ''${''" by simp
    with d show False by simp
  qed
  with len2 have len3: "3 \<le> length k" by simp
  then have ne: "drop 2 k \<noteq> []" by simp
  have "drop (length k - 1) k = [last k]"
    using a l by (metis Suc_diff_1 One_nat_def append_butlast_last_id append_eq_conv_conj
        length_butlast length_greater_0_conv)
  with d have "last k = CHR ''}''" by simp
  then have "last (drop 2 k) = CHR ''}''"
    using len3 by (simp add: last_drop)
  with ne have "drop 2 k = butlast (drop 2 k) @ ''}''"
    by (metis append_butlast_last_id)
  with k have "k = ''${'' @ butlast (drop 2 k) @ ''}''" by simp
  then show "\<exists>v. k = ''${'' @ v @ ''}''" ..
next
  assume "\<exists>v. k = ''${'' @ v @ ''}''"
  then show "k \<noteq> [] \<and> startswith k ''${'' \<and> endswith k ''}''"
    by (auto simp: startswith_def endswith_def)
qed

lemma resolve_wrapped:
  "resolve_api_key env (Some (''${'' @ v @ ''}''))
     = (env v, if truthy (env v) then [] else [KeyVariableNotFound v])"
proof -
  have w: "truthy (Some (''${'' @ v @ ''}'')) \<and> startswith (''${'' @ v @ ''}'') ''${''
           \<and> endswith (''${'' @ v @ ''}'') ''}''"
    by (simp add: truthy_def startswith_def endswith_def)
  have b: "butlast (drop 2 (''${'' @ v @ ''}'')) = v" by simp
  show ?thesis
    unfolding resolve_api_key_def using w by (simp only: option.sel b Let_def if_True) simp
qed

lemma resolve_plain:
  assumes "\<forall>v. key \<noteq> Some (''${'' @ v @ ''}'')"
  shows "resolve_api_key env key
     = (if truthy (env (str_opt key)) then (env (str_opt key), [KeyFoundDirectly (str_opt key)])
        else (key, []))"
proof -
  have "\<not> (truthy key \<and> startswith (the key) ''${'' \<and> endswith (the key) ''}'')"
  proof (cases key)
    case None
    then show ?thesis by (simp add: truthy_def)
  next
    case (Some k)
    with assms have "\<not> (\<exists>v. k = ''${'' @ v @ ''}'')" by auto
    then show ?thesis
      using wrapped_iff [of k] Some by (auto simp: truthy_def)
  qed
  then show ?thesis
    unfolding resolve_api_key_def by (simp only: if_False Let_def)
qed

text \<open>
  Claim C9 does not hold as stated: a key value that is not wrapped but is the name of
  an environment variable with a non-empty value resolves to that variable's value, not
  to the literal.
\<close>

theorem resolve_api_key_literal_counterexample:
  "resolve_api_key (map_of [(''MY_KEY'', ''secret'')]) (Some ''MY_KEY'')
     = (Some ''secret'', [KeyFoundDirectly ''MY_KEY'']) \<and>
   fst (resolve_api_key (map_of [(''MY_KEY'', ''secret'')]) (Some ''MY_KEY'')) \<noteq> Some ''MY_KEY''"
  by (simp add: resolve_api_key_def truthy_def startswith_def endswith_def str_opt_def)


lemma initialize_rag_proceeds:
  assumes "\<not> initialized st" and "GRAPHRAG_AVAILABLE env"
    and "set required_files \<subseteq> set (output_files env)"
    and "load_data env = None"
    and "table_names env = Inr names" and "LANCEDB_COLLECTION_NAME \<in> set names"
    and "truthy (LLM_MODEL env)" and "truthy (LLM_API_BASE env)"
    and "create_chat_model env (fst (resolve_api_key (getenv env) (llm_api_key env))) = None"
    and "truthy (EMBEDDING_MODEL env)" and "truthy (EMBEDDING_API_BASE env)"
    and "create_embedding_model env
           (fst (resolve_api_key (getenv env) (embedding_api_key env))) = None"
    and "token_encoder env = None" and "build_engine env = Inr h"
  shows "fst (initialize_rag env st)
           = st\<lparr>model_manager := True, search_engine := Some h, initialized := True\<rparr>"
    and "\<not> truthy (fst (resolve_api_key (getenv env) (llm_api_key env))) \<Longrightarrow>
           ChatKeyUnresolved \<in> set (snd (initialize_rag env st))"
proof -
  have m: "filter (\<lambda>f. f \<notin> set (output_files env)) required_files = []"
    using assms(3) by (auto simp: filter_empty_conv)
  show "fst (initialize_rag env st)
           = st\<lparr>model_manager := True, search_engine := Some h, initialized := True\<rparr>"
    unfolding initialize_rag_def using assms m
    by (simp add: Let_def case_prod_beta)
  show "ChatKeyUnresolved \<in> set (snd (initialize_rag env st))"
    if "\<not> truthy (fst (resolve_api_key (getenv env) (llm_api_key env)))"
    unfolding initialize_rag_def using assms m that
    by (simp add: Let_def case_prod_beta)
qed

text \<open>
  Claim C9, amended. A key value \<open>${VAR}\<close> resolves to the value of the environment
  variable \<open>VAR\<close> (absent when it is unset, and then an error record is logged). Any
  other value is used as the literal key, unless an environment variable of that very
  name has a non-empty value, which is then used. An unresolved chat key makes
  \<open>initialize_rag\<close> log a warning and go on: when every other step goes through, the
  engine ends up initialized.
\<close>

theorem resolve_api_key_cases:
  "resolve_api_key ge (Some (''${'' @ v @ ''}''))
     = (ge v, if truthy (ge v) then [] else [KeyVariableNotFound v]) \<and>
   ((\<forall>w. key \<noteq> Some (''${'' @ w @ ''}'')) \<longrightarrow>
      fst (resolve_api_key ge key)
        = (if truthy (ge (str_opt key)) then ge (str_opt key) else key)) \<and>
   (\<not> initialized st \<and> GRAPHRAG_AVAILABLE env
      \<and> set required_files \<subseteq> set (output_files env)
      \<and> load_data env = None
      \<and> table_names env = Inr names \<and> LANCEDB_COLLECTION_NAME \<in> set names
      \<and> truthy (LLM_MODEL env) \<and> truthy (LLM_API_BASE env)
      \<and> create_chat_model env (fst (resolve_api_key (getenv env) (llm_api_key env))) = None
      \<and> truthy (EMBEDDING_MODEL env) \<and> truthy (EMBEDDING_API_BASE env)
      \<and> create_embedding_model env
           (fst (resolve_api_key (getenv env) (embedding_api_key env))) = None
      \<and> token_encoder env = None \<and> build_engine env = Inr h
      \<and> \<not> truthy (fst (resolve_api_key (getenv env) (llm_api_key env))) \<longrightarrow>
      ChatKeyUnresolved \<in> set (snd (initialize_rag env st)) \<and>
      fst (initialize_rag env st)
        = st\<lparr>model_manager := True, search_engine := Some h, initialized := True\<rparr>)"
  using resolve_wrapped [of ge v] resolve_plain [of key ge]
    initialize_rag_proceeds [of st env names h]
  by (simp split: if_splits)


theorem resolve_api_key_cases_witness:
  "resolve_api_key Map.empty (Some ''${OPENAI_API_KEY}'')
     = (None, [KeyVariableNotFound ''OPENAI_API_KEY'']) \<and>
   (\<forall>w. Some ''sk-123'' \<noteq> Some (''${'' @ w @ ''}'')) \<and>
   fst (resolve_api_key Map.empty (Some ''sk-123'')) = Some ''sk-123'' \<and>
   ChatKeyUnresolved \<in> set (snd (initialize_rag
      \<lparr>GRAPHRAG_AVAILABLE = True,
        output_files = [''communities.parquet'', ''community_reports.parquet'', ''entities.parquet'',
                        ''relationships.parquet'', ''text_units.parquet'', ''stats.json''],
        load_data = None, table_names = Inr [''default-entity-description''],
        getenv = Map.empty, llm_api_key = Some ''${OPENAI_API_KEY}'',
        LLM_MODEL = Some ''gpt-4o'', LLM_API_BASE = Some ''http://localhost:8080/v1'',
        create_chat_model = (\<lambda>k. None), embedding_api_key = Some ''sk-123'',
        EMBEDDING_MODEL = Some ''embedder'', EMBEDDING_API_BASE = Some ''http://localhost:8080/v1'',
        create_embedding_model = (\<lambda>k. None), token_encoder = None,
        build_engine = Inr (7::nat)\<rparr>
      \<lparr>model_manager = False, search_engine = None, initialized = False\<rparr>)) \<and>
   fst (initialize_rag
      \<lparr>GRAPHRAG_AVAILABLE = True,
        output_files = [''communities.parquet'', ''community_reports.parquet'', ''entities.parquet'',
                        ''relationships.parquet'', ''text_units.parquet'', ''stats.json''],
        load_data = None, table_names = Inr [''default-entity-description''],
        getenv = Map.empty, llm_api_key = Some ''${OPENAI_API_KEY}'',
        LLM_MODEL = Some ''gpt-4o'', LLM_API_BASE = Some ''http://localhost:8080/v1'',
        create_chat_model = (\<lambda>k. None), embedding_api_key = Some ''sk-123'',
        EMBEDDING_MODEL = Some ''embedder'', EMBEDDING_API_BASE = Some ''http://localhost:8080/v1'',
        create_embedding_model = (\<lambda>k. None), token_encoder = None,
        build_engine = Inr (7::nat)\<rparr>
      \<lparr>model_manager = False, search_engine = None, initialized = False\<rparr>)
   = \<lparr>model_manager = True, search_engine = Some 7, initialized = True\<rparr>"
proof -
  have key: "resolve_api_key Map.empty (Some ''${OPENAI_API_KEY}'')
               = (None, [KeyVariableNotFound ''OPENAI_API_KEY''])"
    by (simp add: resolve_api_key_def truthy_def startswith_def endswith_def)
  have lit: "\<forall>w. Some ''sk-123'' \<noteq> Some (''${'' @ w @ ''}'')" by simp
  show ?thesis
    using key lit
      resolve_api_key_cases [of Map.empty "''OPENAI_API_KEY''" "Some ''sk-123''"
        "\<lparr>model_manager = False, search_engine = None, initialized = False\<rparr>"
        "\<lparr>GRAPHRAG_AVAILABLE = True,
        output_files = [''communities.parquet'', ''community_reports.parquet'', ''entities.parquet'',
                        ''relationships.parquet'', ''text_units.parquet'', ''stats.json''],
        load_data = None, table_names = Inr [''default-entity-description''],
        getenv = Map.empty, llm_api_key = Some ''${OPENAI_API_KEY}'',
        LLM_MODEL = Some ''gpt-4o'', LLM_API_BASE = Some ''http://localhost:8080/v1'',
        create_chat_model = (\<lambda>k. None), embedding_api_key = Some ''sk-123'',
        EMBEDDING_MODEL = Some ''embedder'', EMBEDDING_API_BASE = Some ''http://localhost:8080/v1'',
        create_embedding_model = (\<lambda>k. None), token_encoder = None,
        build_engine = Inr (7::nat)\<rparr>"
        "[''default-entity-description'']" 7]
    by (simp add: truthy_def required_files_def LANCEDB_COLLECTION_NAME_def str_opt_def)
qed

section \<open>Properties of the message endpoint\<close>

lemma chunk_payloads_chunks:
  "chunk_payloads (map (\<lambda>char. Chunk [char]) s @ es) = map (\<lambda>char. [char]) s @ chunk_payloads es"
  by (induction s) simp_all

lemma error_payloads_chunks:
  "error_payloads (map (\<lambda>char. Chunk [char]) s @ es) = error_payloads es"
  by (induction s) simp_all

lemma filter_is_end_chunks:
  "filter is_end (map (\<lambda>char. Chunk [char]) s @ es) = filter is_end es"
  by (induction s) simp_all

lemma concat_singletons: "concat (map (\<lambda>char. [char]) s) = s"
  by (induction s) simp_all

lemma add_message_persisted:
  assumes "load_topic dir tid = Some t" and "get_topic_path (topic_id t) = get_topic_path tid"
  shows "load_topic (snd (add_message_to_topic WriteOk tid msg dir)) tid
           = Some (t\<lparr>messages := messages t @ [msg]\<rparr>)"
proof -
  from assms(1) obtain p where p: "get_topic_path tid = Inr p"
    by (cases "get_topic_path tid") (simp_all add: load_topic_def)
  have "get_topic_path (topic_id (t\<lparr>messages := messages t @ [msg]\<rparr>)) = Inr p"
    using assms(2) p by simp
  then have "load_topic (save_topic WriteOk (t\<lparr>messages := messages t @ [msg]\<rparr>) dir) tid
               = Some (t\<lparr>messages := messages t @ [msg]\<rparr>)"
    using p by (rule load_after_save)
  then show ?thesis
    using assms(1) by (simp add: add_message_to_topic_def Let_def)
qed

lemma stream_body_reply:
  "stream_body (Inr full) tid io dir =
     (Start tid # map (\<lambda>char. Chunk [char]) full
        @ [End tid (updated_history
                      (snd (add_message_to_topic io tid \<lparr>role = ''assistant'', content = full\<rparr> dir)) tid)],
      snd (add_message_to_topic io tid \<lparr>role = ''assistant'', content = full\<rparr> dir))"
  by (simp add: stream_body_def Let_def)

lemma stream_body_raised:
  "stream_body (Inl e) tid io dir =
     ([Start tid, Error error_msg,
       End tid (updated_history
                  (snd (add_message_to_topic io tid \<lparr>role = ''assistant'', content = error_msg\<rparr> dir)) tid)],
      snd (add_message_to_topic io tid \<lparr>role = ''assistant'', content = error_msg\<rparr> dir))"
  by (simp add: stream_body_def Let_def)

text \<open>
  Claim C1. Whatever the awaited query did (returned a reply or raised), the events of
  \<open>stream_response\<close> end with an \<open>end\<close> event and contain exactly one. On the
  success path the payloads of the \<open>chunk\<close> events concatenate to the reply and
  there is no \<open>error\<close> event; on the error path there is no \<open>chunk\<close> event and
  one \<open>error\<close> event. When the topic loads from the file named after it (as in
  every coherent directory) and the write goes through, the topic stored afterwards is the one loaded before with one message
  appended: the assistant message whose content is that concatenation, or that error
  payload.
\<close>

theorem stream_ends_once_and_reconstructs:
  assumes "stream_body reply tid io dir = (evs, dir')"
  shows "last evs = End tid (updated_history dir' tid) \<and>
         filter is_end evs = [End tid (updated_history dir' tid)] \<and>
         (\<forall>full. reply = Inr full \<longrightarrow>
            concat (chunk_payloads evs) = full \<and> error_payloads evs = [] \<and>
            (load_topic dir tid = Some t \<and> get_topic_path (topic_id t) = get_topic_path tid
               \<and> io = WriteOk \<longrightarrow>
             load_topic dir' tid = Some (t\<lparr>messages := messages t @
               [\<lparr>role = ''assistant'', content = concat (chunk_payloads evs)\<rparr>]\<rparr>))) \<and>
         (\<forall>e. reply = Inl e \<longrightarrow>
            chunk_payloads evs = [] \<and> error_payloads evs = [error_msg] \<and>
            (load_topic dir tid = Some t \<and> get_topic_path (topic_id t) = get_topic_path tid
               \<and> io = WriteOk \<longrightarrow>
             load_topic dir' tid = Some (t\<lparr>messages := messages t @
               [\<lparr>role = ''assistant'', content = hd (error_payloads evs)\<rparr>]\<rparr>))) \<and>
         events (stream_response st search tid topic question io dir)
           = fst (stream_body (query_rag st search question (history_for_llm topic)) tid io dir)"
proof (cases reply)
  case (Inr full)
  with assms have evs: "evs = Start tid # map (\<lambda>char. Chunk [char]) full
        @ [End tid (updated_history dir' tid)]"
    and dir': "dir' = snd (add_message_to_topic io tid \<lparr>role = ''assistant'', content = full\<rparr> dir)"
    by (auto simp: stream_body_reply)
  have c: "concat (chunk_payloads evs) = full"
    by (simp add: evs chunk_payloads_chunks concat_singletons)
  have e: "error_payloads evs = []"
    by (simp add: evs error_payloads_chunks)
  have f: "filter is_end evs = [End tid (updated_history dir' tid)]"
    by (simp add: evs filter_is_end_chunks)
  have l: "last evs = End tid (updated_history dir' tid)"
    by (simp add: evs)
  have p: "load_topic dir' tid = Some (t\<lparr>messages := messages t @
               [\<lparr>role = ''assistant'', content = concat (chunk_payloads evs)\<rparr>]\<rparr>)"
    if "load_topic dir tid = Some t" "get_topic_path (topic_id t) = get_topic_path tid" "io = WriteOk"
    using add_message_persisted [OF that(1,2)] that(3) by (simp add: dir' c)
  have s: "events (stream_response st search tid topic question io dir)
           = fst (stream_body (query_rag st search question (history_for_llm topic)) tid io dir)"
    by (simp add: stream_response_def Let_def case_prod_beta)
  show ?thesis
    using Inr c e f l p s by simp
next
  case (Inl ex)
  with assms have evs: "evs = [Start tid, Error error_msg, End tid (updated_history dir' tid)]"
    and dir': "dir' = snd (add_message_to_topic io tid \<lparr>role = ''assistant'', content = error_msg\<rparr> dir)"
    by (auto simp: stream_body_raised)
  have p: "load_topic dir' tid = Some (t\<lparr>messages := messages t @
               [\<lparr>role = ''assistant'', content = hd (error_payloads evs)\<rparr>]\<rparr>)"
    if "load_topic dir tid = Some t" "get_topic_path (topic_id t) = get_topic_path tid" "io = WriteOk"
    using add_message_persisted [OF that(1,2)] that(3) by (simp add: dir' evs)
  have s: "events (stream_response st search tid topic question io dir)
           = fst (stream_body (query_rag st search question (history_for_llm topic)) tid io dir)"
    by (simp add: stream_response_def Let_def case_prod_beta)
  show ?thesis
    using Inl p s by (simp add: evs)
qed


theorem stream_ends_once_and_reconstructs_witness:
  "stream_body (Inr ''Hi'') ''abc'' WriteOk
     [(''abc.json'', Json \<lparr>topic_id = ''abc'', topic_name = ''Algebra'',
             messages = [\<lparr>role = ''user'', content = ''Q''\<rparr>]\<rparr>)]
   = ([Start ''abc'', Chunk ''H'', Chunk ''i'',
       End ''abc'' [\<lparr>role = ''user'', content = ''Q''\<rparr>, \<lparr>role = ''assistant'', content = ''Hi''\<rparr>]],
      [(''abc.json'', Json \<lparr>topic_id = ''abc'', topic_name = ''Algebra'',
          messages = [\<lparr>role = ''user'', content = ''Q''\<rparr>, \<lparr>role = ''assistant'', content = ''Hi''\<rparr>]\<rparr>)]) \<and>
   load_topic [(''abc.json'', Json \<lparr>topic_id = ''abc'', topic_name = ''Algebra'',
             messages = [\<lparr>role = ''user'', content = ''Q''\<rparr>]\<rparr>)] ''abc'' = Some \<lparr>topic_id = ''abc'', topic_name = ''Algebra'',
             messages = [\<lparr>role = ''user'', content = ''Q''\<rparr>]\<rparr> \<and>
   get_topic_path (topic_id \<lparr>topic_id = ''abc'', topic_name = ''Algebra'',
             messages = [\<lparr>role = ''user'', content = ''Q''\<rparr>]\<rparr>) = get_topic_path ''abc'' \<and>
   load_topic [(''abc.json'', Json \<lparr>topic_id = ''abc'', topic_name = ''Algebra'',
          messages = [\<lparr>role = ''user'', content = ''Q''\<rparr>, \<lparr>role = ''assistant'', content = ''Hi''\<rparr>]\<rparr>)] ''abc''
     = Some \<lparr>topic_id = ''abc'', topic_name = ''Algebra'',
          messages = [\<lparr>role = ''user'', content = ''Q''\<rparr>, \<lparr>role = ''assistant'', content = ''Hi''\<rparr>]\<rparr> \<and>
   stream_body (Inl (Exn ''ValidationError'' ''bad'')) ''abc'' WriteOk
     [(''abc.json'', Json \<lparr>topic_id = ''abc'', topic_name = ''Algebra'',
             messages = [\<lparr>role = ''user'', content = ''Q''\<rparr>]\<rparr>)]
   = ([Start ''abc'', Error error_msg,
       End ''abc'' [\<lparr>role = ''user'', content = ''Q''\<rparr>, \<lparr>role = ''assistant'', content = error_msg\<rparr>]],
      [(''abc.json'', Json \<lparr>topic_id = ''abc'', topic_name = ''Algebra'',
          messages = [\<lparr>role = ''user'', content = ''Q''\<rparr>, \<lparr>role = ''assistant'', content = error_msg\<rparr>]\<rparr>)]) \<and>
   load_topic [(''abc.json'', Json \<lparr>topic_id = ''abc'', topic_name = ''Algebra'',
          messages = [\<lparr>role = ''user'', content = ''Q''\<rparr>, \<lparr>role = ''assistant'', content = error_msg\<rparr>]\<rparr>)] ''abc''
     = Some \<lparr>topic_id = ''abc'', topic_name = ''Algebra'',
          messages = [\<lparr>role = ''user'', content = ''Q''\<rparr>, \<lparr>role = ''assistant'', content = error_msg\<rparr>]\<rparr>"
proof -
  have s: "safe_topic_id ''abc'' = ''abc''"
    by (simp add: safe_topic_id_def rstrip_def isalnum_def isspace_def)
  have l: "load_topic [(''abc.json'', Json \<lparr>topic_id = ''abc'', topic_name = ''Algebra'',
             messages = [\<lparr>role = ''user'', content = ''Q''\<rparr>]\<rparr>)] ''abc'' = Some \<lparr>topic_id = ''abc'', topic_name = ''Algebra'',
             messages = [\<lparr>role = ''user'', content = ''Q''\<rparr>]\<rparr>"
    by (simp add: load_topic_def get_topic_path_def s)
  have ok: "stream_body (Inr ''Hi'') ''abc'' WriteOk
     [(''abc.json'', Json \<lparr>topic_id = ''abc'', topic_name = ''Algebra'',
             messages = [\<lparr>role = ''user'', content = ''Q''\<rparr>]\<rparr>)]
   = ([Start ''abc'', Chunk ''H'', Chunk ''i'',
       End ''abc'' [\<lparr>role = ''user'', content = ''Q''\<rparr>, \<lparr>role = ''assistant'', content = ''Hi''\<rparr>]],
      [(''abc.json'', Json \<lparr>topic_id = ''abc'', topic_name = ''Algebra'',
          messages = [\<lparr>role = ''user'', content = ''Q''\<rparr>, \<lparr>role = ''assistant'', content = ''Hi''\<rparr>]\<rparr>)])"
    by (simp add: stream_body_def add_message_to_topic_def save_topic_def load_topic_def
          updated_history_def get_topic_path_def s Let_def)
  have err: "stream_body (Inl (Exn ''ValidationError'' ''bad'')) ''abc'' WriteOk
     [(''abc.json'', Json \<lparr>topic_id = ''abc'', topic_name = ''Algebra'',
             messages = [\<lparr>role = ''user'', content = ''Q''\<rparr>]\<rparr>)]
   = ([Start ''abc'', Error error_msg,
       End ''abc'' [\<lparr>role = ''user'', content = ''Q''\<rparr>, \<lparr>role = ''assistant'', content = error_msg\<rparr>]],
      [(''abc.json'', Json \<lparr>topic_id = ''abc'', topic_name = ''Algebra'',
          messages = [\<lparr>role = ''user'', content = ''Q''\<rparr>, \<lparr>role = ''assistant'', content = error_msg\<rparr>]\<rparr>)])"
    by (simp add: stream_body_def add_message_to_topic_def save_topic_def load_topic_def
          updated_history_def get_topic_path_def s Let_def)
  show ?thesis
    using l ok err
      stream_ends_once_and_reconstructs [OF ok, where t = "\<lparr>topic_id = ''abc'', topic_name = ''Algebra'',
             messages = [\<lparr>role = ''user'', content = ''Q''\<rparr>]\<rparr>"
           and topic = "\<lparr>topic_id = ''abc'', topic_name = ''Algebra'',
             messages = [\<lparr>role = ''user'', content = ''Q''\<rparr>]\<rparr>"
           and st = "\<lparr>model_manager = False, search_engine = None :: nat option, initialized = False\<rparr>"
           and search = "Inr NoResult" and question = "''Q''"]
      stream_ends_once_and_reconstructs [OF err, where t = "\<lparr>topic_id = ''abc'', topic_name = ''Algebra'',
             messages = [\<lparr>role = ''user'', content = ''Q''\<rparr>]\<rparr>"
           and topic = "\<lparr>topic_id = ''abc'', topic_name = ''Algebra'',
             messages = [\<lparr>role = ''user'', content = ''Q''\<rparr>]\<rparr>"
           and st = "\<lparr>model_manager = False, search_engine = None :: nat option, initialized = False\<rparr>"
           and search = "Inr NoResult" and question = "''Q''"]
    by simp
qed

text \<open>
  Claim C10. When \<open>post_message\<close> starts a stream, the history handed to
  \<open>query_rag\<close> is the last at most 10 messages of the topic as loaded before the
  user message of the request was appended: its length is the smaller of 10 and the
  number of stored messages, it is a suffix of the stored list (so in stored order), and
  within the list that has the current user message appended it is the slice that stops
  before that last element. The stream runs on the directory in which the user message
  has already been appended.
\<close>

theorem post_message_history:
  assumes "post_message st search tid body io_user io_ai dir = Inr r"
  shows "\<exists>topic msg. body = Some msg \<and> msg \<noteq> [] \<and> load_topic dir tid = Some topic \<and>
           query_history r = drop (length (messages topic) - 10) (messages topic) \<and>
           length (query_history r) = min 10 (length (messages topic)) \<and>
           messages topic = take (length (messages topic) - 10) (messages topic) @ query_history r \<and>
           query_history r = butlast (drop (length (messages topic) - 10)
                                (messages topic @ [\<lparr>role = ''user'', content = msg\<rparr>])) \<and>
           r = stream_response st search tid topic msg io_ai
                 (snd (add_message_to_topic io_user tid \<lparr>role = ''user'', content = msg\<rparr> dir)) \<and>
           (io_user = WriteOk \<and> get_topic_path (topic_id topic) = get_topic_path tid \<longrightarrow>
              load_topic (snd (add_message_to_topic io_user tid \<lparr>role = ''user'', content = msg\<rparr> dir)) tid
                = Some (topic\<lparr>messages := messages topic @ [\<lparr>role = ''user'', content = msg\<rparr>]\<rparr>))"
proof -
  from assms have "truthy body"
    by (auto simp: post_message_def split: if_splits)
  then obtain msg where body: "body = Some msg" "msg \<noteq> []"
    by (cases body) (auto simp: truthy_def)
  from assms body obtain topic where topic: "load_topic dir tid = Some topic"
    by (cases "load_topic dir tid") (auto simp: post_message_def truthy_def)
  define dir1 where "dir1 = snd (add_message_to_topic io_user tid \<lparr>role = ''user'', content = msg\<rparr> dir)"
  have r: "r = stream_response st search tid topic msg io_ai dir1"
    using assms body topic by (simp add: post_message_def truthy_def Let_def dir1_def)
  then have h: "query_history r = drop (length (messages topic) - 10) (messages topic)"
    by (simp add: stream_response_def Let_def case_prod_beta history_for_llm_def)
  have b: "butlast (drop (length (messages topic) - 10)
             (messages topic @ [\<lparr>role = ''user'', content = msg\<rparr>]))
           = drop (length (messages topic) - 10) (messages topic)"
    by simp
  have p: "load_topic dir1 tid
             = Some (topic\<lparr>messages := messages topic @ [\<lparr>role = ''user'', content = msg\<rparr>]\<rparr>)"
    if "io_user = WriteOk" "get_topic_path (topic_id topic) = get_topic_path tid"
    using add_message_persisted [OF topic that(2)] that(1) by (simp add: dir1_def)
  show ?thesis
    using body topic r h b p unfolding dir1_def
    by (intro exI [of _ topic] exI [of _ msg]) (simp del: butlast_append butlast_snoc)
qed

theorem post_message_history_witness:
  "post_message \<lparr>model_manager = True, search_engine = Some (0::nat), initialized = True\<rparr>
     (Inr (Response (Some ''A''))) ''abc'' (Some ''Why?'') WriteOk WriteOk
     [(''abc.json'', Json \<lparr>topic_id = ''abc'', topic_name = ''Algebra'',
             messages = [\<lparr>role = ''user'', content = ''Q''\<rparr>]\<rparr>)]
   = Inr \<lparr>events = [Start ''abc'', Chunk ''A'',
                End ''abc'' [\<lparr>role = ''user'', content = ''Q''\<rparr>,
                           \<lparr>role = ''user'', content = ''Why?''\<rparr>,
                           \<lparr>role = ''assistant'', content = ''A''\<rparr>]],
      directory_after =
        [(''abc.json'', Json \<lparr>topic_id = ''abc'', topic_name = ''Algebra'',
            messages = [\<lparr>role = ''user'', content = ''Q''\<rparr>,
                        \<lparr>role = ''user'', content = ''Why?''\<rparr>,
                        \<lparr>role = ''assistant'', content = ''A''\<rparr>]\<rparr>)],
      query_question = ''Why?'',
      query_history = [\<lparr>role = ''user'', content = ''Q''\<rparr>]\<rparr> \<and>
   load_topic [(''abc.json'', Json \<lparr>topic_id = ''abc'', topic_name = ''Algebra'',
             messages = [\<lparr>role = ''user'', content = ''Q''\<rparr>]\<rparr>)] ''abc''
     = Some \<lparr>topic_id = ''abc'', topic_name = ''Algebra'',
             messages = [\<lparr>role = ''user'', content = ''Q''\<rparr>]\<rparr> \<and>
   query_history \<lparr>events = [Start ''abc'', Chunk ''A'',
                End ''abc'' [\<lparr>role = ''user'', content = ''Q''\<rparr>,
                           \<lparr>role = ''user'', content = ''Why?''\<rparr>,
                           \<lparr>role = ''assistant'', content = ''A''\<rparr>]],
      directory_after =
        [(''abc.json'', Json \<lparr>topic_id = ''abc'', topic_name = ''Algebra'',
            messages = [\<lparr>role = ''user'', content = ''Q''\<rparr>,
                        \<lparr>role = ''user'', content = ''Why?''\<rparr>,
                        \<lparr>role = ''assistant'', content = ''A''\<rparr>]\<rparr>)],
      query_question = ''Why?'',
      query_history = [\<lparr>role = ''user'', content = ''Q''\<rparr>]\<rparr> = [\<lparr>role = ''user'', content = ''Q''\<rparr>]"
proof -
  have s: "safe_topic_id ''abc'' = ''abc''"
    by (simp add: safe_topic_id_def rstrip_def isalnum_def isspace_def)
  have l: "load_topic [(''abc.json'', Json \<lparr>topic_id = ''abc'', topic_name = ''Algebra'',
             messages = [\<lparr>role = ''user'', content = ''Q''\<rparr>]\<rparr>)] ''abc''
     = Some \<lparr>topic_id = ''abc'', topic_name = ''Algebra'',
             messages = [\<lparr>role = ''user'', content = ''Q''\<rparr>]\<rparr>"
    by (simp add: load_topic_def get_topic_path_def s)
  have p: "post_message \<lparr>model_manager = True, search_engine = Some (0::nat), initialized = True\<rparr>
     (Inr (Response (Some ''A''))) ''abc'' (Some ''Why?'') WriteOk WriteOk
     [(''abc.json'', Json \<lparr>topic_id = ''abc'', topic_name = ''Algebra'',
             messages = [\<lparr>role = ''user'', content = ''Q''\<rparr>]\<rparr>)]
   = Inr \<lparr>events = [Start ''abc'', Chunk ''A'',
                End ''abc'' [\<lparr>role = ''user'', content = ''Q''\<rparr>,
                           \<lparr>role = ''user'', content = ''Why?''\<rparr>,
                           \<lparr>role = ''assistant'', content = ''A''\<rparr>]],
      directory_after =
        [(''abc.json'', Json \<lparr>topic_id = ''abc'', topic_name = ''Algebra'',
            messages = [\<lparr>role = ''user'', content = ''Q''\<rparr>,
                        \<lparr>role = ''user'', content = ''Why?''\<rparr>,
                        \<lparr>role = ''assistant'', content = ''A''\<rparr>]\<rparr>)],
      query_question = ''Why?'',
      query_history = [\<lparr>role = ''user'', content = ''Q''\<rparr>]\<rparr>"
    by (simp add: post_message_def stream_response_def stream_body_def query_rag_def
          history_for_llm_def add_message_to_topic_def save_topic_def load_topic_def
          updated_history_def get_topic_path_def s Let_def truthy_def)
  from post_message_history [OF p] obtain topic where
    t: "load_topic [(''abc.json'', Json \<lparr>topic_id = ''abc'', topic_name = ''Algebra'',
             messages = [\<lparr>role = ''user'', content = ''Q''\<rparr>]\<rparr>)] ''abc'' = Some topic"
    and q: "query_history \<lparr>events = [Start ''abc'', Chunk ''A'',
                End ''abc'' [\<lparr>role = ''user'', content = ''Q''\<rparr>,
                           \<lparr>role = ''user'', content = ''Why?''\<rparr>,
                           \<lparr>role = ''assistant'', content = ''A''\<rparr>]],
      directory_after =
        [(''abc.json'', Json \<lparr>topic_id = ''abc'', topic_name = ''Algebra'',
            messages = [\<lparr>role = ''user'', content = ''Q''\<rparr>,
                        \<lparr>role = ''user'', content = ''Why?''\<rparr>,
                        \<lparr>role = ''assistant'', content = ''A''\<rparr>]\<rparr>)],
      query_question = ''Why?'',
      query_history = [\<lparr>role = ''user'', content = ''Q''\<rparr>]\<rparr> = drop (length (messages topic) - 10) (messages topic)"
    by blast
  from t l have "Some topic = Some \<lparr>topic_id = ''abc'', topic_name = ''Algebra'',
             messages = [\<lparr>role = ''user'', content = ''Q''\<rparr>]\<rparr>"
    by (rule trans [OF sym])
  then have "messages topic = [\<lparr>role = ''user'', content = ''Q''\<rparr>]" by auto
  with q have "query_history \<lparr>events = [Start ''abc'', Chunk ''A'',
                End ''abc'' [\<lparr>role = ''user'', content = ''Q''\<rparr>,
                           \<lparr>role = ''user'', content = ''Why?''\<rparr>,
                           \<lparr>role = ''assistant'', content = ''A''\<rparr>]],
      directory_after =
        [(''abc.json'', Json \<lparr>topic_id = ''abc'', topic_name = ''Algebra'',
            messages = [\<lparr>role = ''user'', content = ''Q''\<rparr>,
                        \<lparr>role = ''user'', content = ''Why?''\<rparr>,
                        \<lparr>role = ''assistant'', content = ''A''\<rparr>]\<rparr>)],
      query_question = ''Why?'',
      query_history = [\<lparr>role = ''user'', content = ''Q''\<rparr>]\<rparr> = [\<lparr>role = ''user'', content = ''Q''\<rparr>]" by simp
  with p l show ?thesis by blast
qed

end
